theory Spec2Isabelle
  imports Main "HOL-Library.Sublist" "HOL-Library.Word"
begin

section \<open>Python strings\<close>

text \<open>
  A Python \<open>str\<close> is a sequence of Unicode code points, so a string is a list of
  code points here (the template of \<open>build_prompt\<close> and the default reading level hold
  an en dash, U+2013, which a byte has no room for). \<open>lit\<close> reads an ASCII literal as
  such a list; the newline of the source is \<open>\<newline>\<close>, code point 10.
\<close>

type_synonym pystr = "nat list"

abbreviation (input) lit :: "string \<Rightarrow> pystr" where
  "lit s \<equiv> map of_char s"

text \<open>
  \<open>str.isspace\<close> of one code point, which is what \<open>str.strip()\<close> without an argument
  tests: the ASCII controls 9 to 13 and 28 to 31, the space, NEL, the no-break space
  and the Unicode space separators.
\<close>

definition isspace :: "nat \<Rightarrow> bool" where
  "isspace c \<longleftrightarrow>
     (9 \<le> c \<and> c \<le> 13) \<or> (28 \<le> c \<and> c \<le> 32) \<or> c = 133 \<or> c = 160 \<or> c = 5760 \<or>
     (8192 \<le> c \<and> c \<le> 8202) \<or> c = 8232 \<or> c = 8233 \<or> c = 8239 \<or> c = 8287 \<or> c = 12288"

definition lstrip :: "pystr \<Rightarrow> pystr" where
  "lstrip s = dropWhile isspace s"

definition rstrip :: "pystr \<Rightarrow> pystr" where
  "rstrip s = rev (dropWhile isspace (rev s))"

definition strip :: "pystr \<Rightarrow> pystr" where
  "strip s = rstrip (lstrip s)"

text \<open>\<open>sep.join(xs)\<close> on a list of strings.\<close>

fun str_join :: "pystr \<Rightarrow> pystr list \<Rightarrow> pystr" where
  "str_join sep [] = []"
| "str_join sep [x] = x"
| "str_join sep (x # y # ys) = x @ sep @ str_join sep (y # ys)"

text \<open>\<open>s.split(sep)\<close> for a separator of one code point: one more piece than separators.\<close>

fun split_on :: "nat \<Rightarrow> pystr \<Rightarrow> pystr list" where
  "split_on sep [] = [[]]"
| "split_on sep (c # cs) =
     (if c = sep then [] # split_on sep cs
      else (case split_on sep cs of
              [] \<Rightarrow> [[c]]
            | p # ps \<Rightarrow> (c # p) # ps))"

text \<open>\<open>str(n)\<close> of an integer, which is how an f-string renders an \<open>int\<close> field.\<close>

fun digits :: "nat \<Rightarrow> pystr" where
  "digits n = (if n < 10 then [48 + n] else digits (n div 10) @ [48 + n mod 10])"

definition str_int :: "int \<Rightarrow> pystr" where
  "str_int i = (if i < 0 then 45 # digits (nat (- i)) else digits (nat i))"

text \<open>The equation of \<open>digits\<close> is unfolded by hand: as a rewrite rule it would not stop.\<close>

declare digits.simps [simp del]

section \<open>Data models\<close>

text \<open>A Python \<open>float\<close> is carried as its IEEE 754 binary64 bit pattern; it is only passed on, never computed with.\<close>

type_synonym pyfloat = "64 word"

record ArticleRequest =
  topic :: pystr
  "keywords" :: "pystr list"
  audience :: pystr
  tone :: pystr
  language :: pystr
  target_words :: int
  include_outline :: bool
  include_seo :: bool
  include_references :: bool
  reading_level :: pystr
  extra_instructions :: pystr

record GenConfig =
  model :: pystr
  temperature :: pyfloat
  seed :: "int option"

section \<open>Prompt builder\<close>

text \<open>The local variables of \<open>build_prompt\<close>, in the order of the source.\<close>

definition kw_str :: "ArticleRequest \<Rightarrow> pystr" where
  "kw_str req = (if keywords req \<noteq> [] then str_join (lit '', '') (keywords req) else lit ''N/A'')"

definition outline_block :: "ArticleRequest \<Rightarrow> pystr" where
  "outline_block req =
     (if include_outline req then
        lit ''Include a clear outline before the main content.\<newline>'' @
        lit ''- H1 title\<newline>- 5'' @ [8211] @ lit ''8 H2 sections with concise H3s where helpful\<newline>''
      else lit ''Skip the outline; start directly with the article.\<newline>'')"

text \<open>
  \<open>seo_block\<close> and \<open>refs_block\<close> are computed by the source and then never
  interpolated: the template below has no placeholder for them.
\<close>

definition seo_block :: "ArticleRequest \<Rightarrow> pystr" where
  "seo_block req =
     (if include_seo req then
        lit ''After the article, output an SEO block with:\<newline>'' @
        lit ''- SEO Title ('' @ [8804] @ lit '' 60 chars)\<newline>- Meta Description ('' @ [8804] @
        lit '' 155 chars)\<newline>'' @
        lit ''- 8'' @ [8211] @ lit ''12 SEO Keywords (comma-separated)\<newline>''
      else [])"

definition refs_block :: "ArticleRequest \<Rightarrow> pystr" where
  "refs_block req =
     (if include_references req then
        lit ''Add a short '' @ [39] @ lit ''References'' @ [39] @ lit '' section with 3'' @ [8211] @
        lit ''5 plausible sources (titles only, no links).\<newline>''
      else [])"

text \<open>The two conditional expressions of the last line of the Output Order list.\<close>

definition seo_item :: "ArticleRequest \<Rightarrow> pystr" where
  "seo_item req = (if include_seo req then lit ''3) SEO Block\<newline>'' else [])"

definition refs_item :: "ArticleRequest \<Rightarrow> pystr" where
  "refs_item req = (if include_references req then lit ''4) References\<newline>'' else [])"

text \<open>
  The f-string, section by section. Each definition is the text of its lines, newline
  included; the string starts with the newline that follows the opening quotes.
\<close>

definition role_line :: pystr where
  "role_line = lit ''You are a senior content strategist and expert writer.\<newline>'' @ lit ''\<newline>''"

definition keyword_line :: "ArticleRequest \<Rightarrow> pystr" where
  "keyword_line req = lit ''Primary Keywords: '' @ kw_str req"

definition goal_section :: "ArticleRequest \<Rightarrow> pystr" where
  "goal_section req =
     lit ''Goal\<newline>'' @
     lit ''-----\<newline>'' @
     lit ''Write a comprehensive, well-structured article in '' @ language req @
       lit '' for the topic:\<newline>'' @
     [34] @ topic req @ [34] @ lit ''\<newline>'' @
     lit ''\<newline>'' @
     lit ''Audience: '' @ audience req @ lit ''\<newline>'' @
     lit ''Tone/Voice: '' @ tone req @ lit ''\<newline>'' @
     lit ''Reading Level: '' @ reading_level req @ lit ''\<newline>'' @
     lit ''Target Length: ~'' @ str_int (target_words req) @ lit '' words\<newline>'' @
     keyword_line req @ lit ''\<newline>'' @
     lit ''\<newline>''"

definition style_rules :: pystr where
  "style_rules =
     lit ''- Use Markdown formatting.\<newline>'' @
     lit ''- Use scannable headings, short paragraphs, and bullet lists where helpful.\<newline>'' @
     lit ''- Provide concrete examples and actionable tips.\<newline>'' @
     lit ''- Avoid fluff; keep it factual and clear.\<newline>'' @
     lit ''- Natural keyword usage; avoid keyword stuffing.\<newline>'' @
     lit ''\<newline>''"

definition structure_section :: "ArticleRequest \<Rightarrow> pystr" where
  "structure_section req =
     lit ''Structure & Style\<newline>'' @
     lit ''-----------------\<newline>'' @
     outline_block req @ lit ''\<newline>'' @
     style_rules"

definition content_section :: pystr where
  "content_section =
     lit ''Content Requirements\<newline>'' @
     lit ''--------------------\<newline>'' @
     lit ''- Strong hook and crisp thesis in intro.\<newline>'' @
     lit ''- Each H2 should fully cover one major point.\<newline>'' @
     lit ''- Add comparisons, pros/cons, pitfalls, or checklists where useful.\<newline>'' @
     lit ''- Conclude with practical summary or next steps.\<newline>'' @
     lit ''\<newline>''"

definition output_order :: "ArticleRequest \<Rightarrow> pystr" where
  "output_order req =
     lit ''Output Order\<newline>'' @
     lit ''------------\<newline>'' @
     lit ''1) Outline (if requested)\<newline>'' @
     lit ''2) Full article in Markdown\<newline>'' @
     seo_item req @ refs_item req @ lit ''\<newline>'' @
     lit ''\<newline>''"

definition extra_heading :: pystr where
  "extra_heading = lit ''Extra Instructions\<newline>'' @ lit ''------------------''"

definition extra_section :: "ArticleRequest \<Rightarrow> pystr" where
  "extra_section req = extra_heading @ lit ''\<newline>'' @ extra_instructions req @ lit ''\<newline>''"

definition prompt_template :: "ArticleRequest \<Rightarrow> pystr" where
  "prompt_template req =
     lit ''\<newline>'' @ role_line @ goal_section req @ structure_section req @ content_section @
     output_order req @ extra_section req"

definition build_prompt :: "ArticleRequest \<Rightarrow> pystr" where
  "build_prompt req = strip (prompt_template req)"

section \<open>Generation client\<close>

text \<open>
  What a chunk of the response stream can hold: the values of parsed JSON. A dict is an
  association list read with \<open>map_of\<close>.
\<close>

datatype pyval =
    PyNone
  | PyBool bool
  | PyInt int
  | PyFloat pyfloat
  | PyStr pystr
  | PyList "pyval list"
  | PyDict "(pystr \<times> pyval) list"

type_synonym pydict = "(pystr \<times> pyval) list"

text \<open>Truth value testing, as \<open>if content:\<close> does it; a float is false when it is plus or minus zero.\<close>

fun truthy :: "pyval \<Rightarrow> bool" where
  "truthy PyNone = False"
| "truthy (PyBool b) = b"
| "truthy (PyInt i) = (i \<noteq> 0)"
| "truthy (PyFloat x) = (take_bit 63 x \<noteq> 0)"
| "truthy (PyStr s) = (s \<noteq> [])"
| "truthy (PyList xs) = (xs \<noteq> [])"
| "truthy (PyDict kvs) = (kvs \<noteq> [])"

datatype error =
    EndpointError pystr
  | AttributeError
  | TypeError
  | UnicodeEncodeError

text \<open>\<open>d.get(key, default)\<close>.\<close>

definition dict_get :: "pydict \<Rightarrow> pystr \<Rightarrow> pyval \<Rightarrow> pyval" where
  "dict_get d k dflt = (case map_of d k of Some v \<Rightarrow> v | None \<Rightarrow> dflt)"

text \<open>
  \<open>chunk.get("message", {}).get("content", "")\<close>: the second \<open>get\<close> raises
  AttributeError when the message is present and is not a dict.
\<close>

definition chunk_content :: "pydict \<Rightarrow> error + pyval" where
  "chunk_content chunk =
     (case dict_get chunk (lit ''message'') (PyDict []) of
        PyDict m \<Rightarrow> Inr (dict_get m (lit ''content'') (PyStr []))
      | _ \<Rightarrow> Inl AttributeError)"

text \<open>
  The response of the endpoint: a finite sequence of chunks that ends normally or with
  an exception raised by the iterator.
\<close>

datatype chunk_stream =
    StreamEnd
  | StreamChunk pydict chunk_stream
  | StreamRaise error

text \<open>The \<open>for\<close> loop, with \<open>chunks\<close> as the accumulator.\<close>

fun consume :: "chunk_stream \<Rightarrow> pyval list \<Rightarrow> error + pyval list" where
  "consume StreamEnd chunks = Inr chunks"
| "consume (StreamRaise e) chunks = Inl e"
| "consume (StreamChunk chunk rest) chunks =
     (case chunk_content chunk of
        Inl e \<Rightarrow> Inl e
      | Inr content \<Rightarrow> consume rest (if truthy content then chunks @ [content] else chunks))"

text \<open>\<open>"".join(chunks)\<close>: TypeError at the first item that is not a string.\<close>

fun join_chunks :: "pyval list \<Rightarrow> error + pystr" where
  "join_chunks [] = Inr []"
| "join_chunks (PyStr s # vs) =
     (case join_chunks vs of Inl e \<Rightarrow> Inl e | Inr t \<Rightarrow> Inr (s @ t))"
| "join_chunks (_ # vs) = Inl TypeError"

record message =
  role :: pystr
  content :: pystr

record chat_request =
  chat_model :: pystr
  messages :: "message list"
  stream :: bool
  options :: "pystr \<rightharpoonup> pyval"

text \<open>
  The endpoint answers a request with an exception or with a stream. \<open>ollama_chat\<close>
  also records the request in the list of requests sent so far.
\<close>

type_synonym endpoint = "chat_request \<Rightarrow> error + chunk_stream"

definition ollama_chat :: "endpoint \<Rightarrow> chat_request \<Rightarrow> chat_request list \<Rightarrow>
    (error + chunk_stream) \<times> chat_request list" where
  "ollama_chat ep rq sent = (ep rq, sent @ [rq])"

definition gen_options :: "GenConfig \<Rightarrow> (pystr \<rightharpoonup> pyval)" where
  "gen_options cfg =
     [lit ''temperature'' \<mapsto> PyFloat (temperature cfg)] ++
     (case seed cfg of Some s \<Rightarrow> [lit ''seed'' \<mapsto> PyInt s] | None \<Rightarrow> Map.empty)"

definition gen_request :: "pystr \<Rightarrow> GenConfig \<Rightarrow> chat_request" where
  "gen_request prompt cfg =
     \<lparr>chat_model = model cfg,
      messages =
        [\<lparr>role = lit ''system'',
          content = lit ''Write clear, accurate, reader-friendly content. Prefer Markdown.''\<rparr>,
         \<lparr>role = lit ''user'', content = prompt\<rparr>],
      stream = True,
      options = gen_options cfg\<rparr>"

definition generate_article :: "endpoint \<Rightarrow> pystr \<Rightarrow> GenConfig \<Rightarrow> chat_request list \<Rightarrow>
    (error + pystr) \<times> chat_request list" where
  "generate_article ep prompt cfg sent =
     (case ollama_chat ep (gen_request prompt cfg) sent of
        (Inl e, sent') \<Rightarrow> (Inl e, sent')
      | (Inr s, sent') \<Rightarrow>
          (case consume s [] of
             Inl e \<Rightarrow> (Inl e, sent')
           | Inr chunks \<Rightarrow> (join_chunks chunks, sent')))"

section \<open>The Generate button\<close>

text \<open>The widget values the handler of the button reads.\<close>

record form =
  model_in :: pystr
  temperature_in :: pyfloat
  use_seed :: bool
  seed_in :: int
  target_words_in :: int
  topic_in :: pystr
  keywords_raw :: pystr
  audience_in :: pystr
  tone_in :: pystr
  reading_level_in :: pystr
  language_in :: pystr
  include_outline_in :: bool
  include_seo_in :: bool
  include_refs :: bool
  extra :: pystr

datatype ui_event =
    StError pystr
  | StStatus pystr
  | StSuccess pystr
  | StMarkdown pystr
  | StSubheader pystr
  | StDownloadButton pystr "nat list" pystr pystr

record world =
  sent :: "chat_request list"
  shown :: "ui_event list"

datatype outcome = Finished | Stopped | Raised error

text \<open>\<open>content.encode("utf-8")\<close>; a surrogate code point has no encoding.\<close>

definition utf8_char :: "nat \<Rightarrow> error + nat list" where
  "utf8_char c =
     (if c < 128 then Inr [c]
      else if c < 2048 then Inr [192 + c div 64, 128 + c mod 64]
      else if 55296 \<le> c \<and> c \<le> 57343 then Inl UnicodeEncodeError
      else if c < 65536 then Inr [224 + c div 4096, 128 + c div 64 mod 64, 128 + c mod 64]
      else Inr [240 + c div 262144, 128 + c div 4096 mod 64, 128 + c div 64 mod 64, 128 + c mod 64])"

fun encode_utf8 :: "pystr \<Rightarrow> error + nat list" where
  "encode_utf8 [] = Inr []"
| "encode_utf8 (c # cs) =
     (case utf8_char c of
        Inl e \<Rightarrow> Inl e
      | Inr bs \<Rightarrow> (case encode_utf8 cs of Inl e \<Rightarrow> Inl e | Inr rest \<Rightarrow> Inr (bs @ rest)))"

definition request_of_form :: "form \<Rightarrow> ArticleRequest" where
  "request_of_form f =
     \<lparr>topic = strip (topic_in f),
      keywords = map strip (filter (\<lambda>k. strip k \<noteq> []) (split_on 44 (keywords_raw f))),
      audience = strip (audience_in f),
      tone = strip (tone_in f),
      language = strip (language_in f),
      target_words = target_words_in f,
      include_outline = include_outline_in f,
      include_seo = include_seo_in f,
      include_references = include_refs f,
      reading_level = reading_level_in f,
      extra_instructions = strip (extra f)\<rparr>"

definition config_of_form :: "form \<Rightarrow> GenConfig" where
  "config_of_form f =
     \<lparr>model = strip (model_in f),
      temperature = temperature_in f,
      seed = (if use_seed f then Some (seed_in f) else None)\<rparr>"

text \<open>
  The body of \<open>if st.button(...)\<close>. \<open>now\<close> is the time of the click as
  \<open>strftime\<close> formats it. \<open>st.stop()\<close> ends the script run.
\<close>

definition on_generate :: "endpoint \<Rightarrow> pystr \<Rightarrow> form \<Rightarrow> world \<Rightarrow> outcome \<times> world" where
  "on_generate ep now f w =
     (if strip (topic_in f) = [] then
        (Stopped, w\<lparr>shown := shown w @ [StError (lit ''Please enter a topic.'')]\<rparr>)
      else
        (let req = request_of_form f;
            cfg = config_of_form f;
            w1 = w\<lparr>shown := shown w @ [StStatus (lit ''Generating article'' @ [8230])]\<rparr>;
            prompt = build_prompt req
        in case generate_article ep prompt cfg (sent w1) of
             (Inl e, sent') \<Rightarrow> (Raised e, w1\<lparr>sent := sent'\<rparr>)
           | (Inr text, sent') \<Rightarrow>
               (let w2 = w1\<lparr>sent := sent',
                          shown := shown w1 @
                            [StSuccess ([9989] @ lit '' Article generated!''),
                             StMarkdown (lit ''---''),
                             StSubheader ([128196] @ lit '' Draft''),
                             StMarkdown text]\<rparr>;
                   fname = lit ''article_'' @ now @ lit ''.md''
               in (case encode_utf8 text of
                    Inl e \<Rightarrow> (Raised e, w2)
                  | Inr bytes \<Rightarrow>
                      (Finished,
                       w2\<lparr>shown := shown w2 @
                            [StDownloadButton ([11015, 65039] @ lit '' Download Markdown'') bytes fname
                               (lit ''text/markdown'')]\<rparr>)))))"

section \<open>Notions the properties are stated with\<close>

text \<open>The chunks a stream yields, in arrival order, and the exception it ends with, if any.\<close>

fun stream_chunks :: "chunk_stream \<Rightarrow> pydict list" where
  "stream_chunks StreamEnd = []"
| "stream_chunks (StreamRaise e) = []"
| "stream_chunks (StreamChunk chunk rest) = chunk # stream_chunks rest"

fun stream_raises :: "chunk_stream \<Rightarrow> error option" where
  "stream_raises StreamEnd = None"
| "stream_raises (StreamRaise e) = Some e"
| "stream_raises (StreamChunk chunk rest) = stream_raises rest"

fun chunks_then :: "pydict list \<Rightarrow> chunk_stream \<Rightarrow> chunk_stream" where
  "chunks_then [] s = s"
| "chunks_then (c # cs) s = StreamChunk c (chunks_then cs s)"

text \<open>
  The textual delta of a chunk, in the words of the specification: the text the chunk
  carries, and the empty string when it carries none.
\<close>

definition chunk_delta :: "pydict \<Rightarrow> pystr" where
  "chunk_delta chunk = (case chunk_content chunk of Inr (PyStr s) \<Rightarrow> s | _ \<Rightarrow> [])"

text \<open>A chunk as the endpoint sends it, and the stream of the specification's example.\<close>

definition text_chunk :: "pystr \<Rightarrow> pydict" where
  "text_chunk s =
     [(lit ''message'', PyDict [(lit ''role'', PyStr (lit ''assistant'')), (lit ''content'', PyStr s)])]"

definition hello_stream :: chunk_stream where
  "hello_stream =
     chunks_then [text_chunk (lit ''Hel''), text_chunk (lit ''lo, ''), text_chunk (lit ''world'')]
       StreamEnd"



text \<open>A stream with a chunk whose content is None and a chunk without a message.\<close>

definition gap_stream :: chunk_stream where
  "gap_stream =
     chunks_then
       [text_chunk (lit ''A''),
        [(lit ''message'', PyDict [(lit ''role'', PyStr (lit ''assistant'')), (lit ''content'', PyNone)])],
        [(lit ''done'', PyBool True)],
        text_chunk (lit ''B'')]
       StreamEnd"

text \<open>The default configuration: the temperature is 0.7.\<close>

definition cfg0 :: GenConfig where
  "cfg0 = \<lparr>model = lit ''phi3:3.8b'', temperature = 0x3FE6666666666666, seed = None\<rparr>"

definition cfg_seeded :: GenConfig where
  "cfg_seeded = \<lparr>model = lit ''phi3:3.8b'', temperature = 0x3FE6666666666666, seed = Some 42\<rparr>"

text \<open>A stream that yields one chunk and then raises.\<close>

definition broken_stream :: chunk_stream where
  "broken_stream =
     StreamChunk (text_chunk (lit ''Hel'')) (StreamRaise (EndpointError (lit ''connection reset'')))"

text \<open>
  The two ways a chunk can be malformed: a field the loop reads is missing (no message,
  or a message without content), or the message is there and is not a dict.
\<close>

definition missing_fields :: "pydict \<Rightarrow> bool" where
  "missing_fields chunk =
     (case map_of chunk (lit ''message'') of
        None \<Rightarrow> True
      | Some (PyDict m) \<Rightarrow> map_of m (lit ''content'') = None
      | Some _ \<Rightarrow> False)"

definition message_not_dict :: "pydict \<Rightarrow> bool" where
  "message_not_dict chunk =
     (case map_of chunk (lit ''message'') of
        None \<Rightarrow> False
      | Some (PyDict m) \<Rightarrow> False
      | Some _ \<Rightarrow> True)"

text \<open>A topic is blank when it is empty or all whitespace.\<close>

definition blank :: "pystr \<Rightarrow> bool" where
  "blank s = list_all isspace s"

text \<open>The form as the page first shows it, and the state before the first click.\<close>

definition form0 :: form where
  "form0 =
     \<lparr>model_in = lit ''phi3:3.8b'', temperature_in = 0x3FE6666666666666, use_seed = False,
      seed_in = 42, target_words_in = 1000, topic_in = [], keywords_raw = [],
      audience_in = lit ''General readers'', tone_in = lit ''Informative and engaging'',
      reading_level_in = lit ''Easy to read (Grade 8'' @ [8211] @ lit ''10)'',
      language_in = lit ''English'', include_outline_in = True, include_seo_in = True,
      include_refs = False, extra = []\<rparr>"

definition world0 :: world where
  "world0 = \<lparr>sent = [], shown = []\<rparr>"

text \<open>
  The prompt up to and including the heading of its last section: what the final
  \<open>strip()\<close> leaves untouched.
\<close>

definition prompt_head :: "ArticleRequest \<Rightarrow> pystr" where
  "prompt_head req =
     role_line @ goal_section req @ structure_section req @ content_section @ output_order req @
     extra_heading"

text \<open>
  The first line of the outline block and the sentence that replaces the block, both
  without their newline.
\<close>

definition outline_marker :: pystr where
  "outline_marker = lit ''Include a clear outline before the main content.''"

definition skip_sentence :: pystr where
  "skip_sentence = lit ''Skip the outline; start directly with the article.''"

text \<open>The texts a request supplies: the fields the template interpolates as they are.\<close>

definition user_texts :: "ArticleRequest \<Rightarrow> pystr list" where
  "user_texts req =
     [language req, topic req, audience req, tone req, reading_level req, extra_instructions req] @
     keywords req"

text \<open>A request with the defaults of \<open>ArticleRequest\<close> and a topic.\<close>

definition req0 :: ArticleRequest where
  "req0 =
     \<lparr>topic = lit ''Tea'', keywords = [],
      audience = lit ''General readers'', tone = lit ''Informative and engaging'',
      language = lit ''English'', target_words = 1000, include_outline = True,
      include_seo = True, include_references = False,
      reading_level = lit ''Easy to read (Grade 8'' @ [8211] @ lit ''10)'',
      extra_instructions = []\<rparr>"

text \<open>
  The Goal section read as a list of lines, each a fixed text around at most one
  interpolated field; \<open>goal_section_lines\<close> below shows it is the same text.
\<close>

definition unlines :: "pystr list \<Rightarrow> pystr" where
  "unlines ls = concat (map (\<lambda>l. l @ [10]) ls)"

definition field_line :: "pystr \<Rightarrow> pystr \<Rightarrow> pystr \<Rightarrow> pystr" where
  "field_line pre f post = pre @ f @ post"

definition goal_lines :: "ArticleRequest \<Rightarrow> pystr list" where
  "goal_lines req =
     [lit ''Goal'',
      lit ''-----'',
      field_line (lit ''Write a comprehensive, well-structured article in '') (language req)
        (lit '' for the topic:''),
      field_line [34] (topic req) [34],
      [],
      field_line (lit ''Audience: '') (audience req) [],
      field_line (lit ''Tone/Voice: '') (tone req) [],
      field_line (lit ''Reading Level: '') (reading_level req) [],
      field_line (lit ''Target Length: ~'') (str_int (target_words req)) (lit '' words''),
      field_line (lit ''Primary Keywords: '') (kw_str req) [],
      []]"

section \<open>Generation client: the accumulated text\<close>





lemma chunk_content_text [simp]: "chunk_content (text_chunk s) = Inr (PyStr s)"
  by (simp add: text_chunk_def chunk_content_def dict_get_def)

lemma chunk_delta_text [simp]: "chunk_delta (text_chunk s) = s"
  by (simp add: chunk_delta_def)

lemma hello_returns:
  "fst (generate_article (\<lambda>rq. Inr hello_stream) (lit ''Hi'') cfg0 []) = Inr (lit ''Hello, world'')"
  by (simp add: generate_article_def ollama_chat_def hello_stream_def)





lemma gap_returns:
  "fst (generate_article (\<lambda>rq. Inr gap_stream) (lit ''Hi'') cfg0 []) = Inr (lit ''AB'')"
  by (simp add: generate_article_def ollama_chat_def gap_stream_def chunk_content_def dict_get_def
      text_chunk_def)



section \<open>Generation client: the request\<close>

lemma generate_article_sent:
  "snd (generate_article ep prompt cfg rqs) = rqs @ [gen_request prompt cfg]"
  by (simp add: generate_article_def ollama_chat_def split: sum.splits)

text \<open>
  C2. \<open>generate_article\<close> sends one request, and its options map holds the
  temperature of the configuration under "temperature"; under "seed" it holds the
  configured integer when there is one and nothing otherwise, so the key is present
  exactly when a seed is configured.
\<close>

theorem options_seed:
  "snd (generate_article ep prompt cfg rqs) = rqs @ [gen_request prompt cfg] \<and>
   options (gen_request prompt cfg) (lit ''temperature'') = Some (PyFloat (temperature cfg)) \<and>
   options (gen_request prompt cfg) (lit ''seed'') = map_option PyInt (seed cfg) \<and>
   (lit ''seed'' \<in> dom (options (gen_request prompt cfg))) = (seed cfg \<noteq> None)"
  by (cases "seed cfg")
    (simp_all add: generate_article_sent gen_request_def gen_options_def map_add_def dom_def)

theorem options_seed_witness:
  "options (gen_request (lit ''Hi'') cfg0) (lit ''seed'') = None \<and>
   lit ''seed'' \<notin> dom (options (gen_request (lit ''Hi'') cfg0)) \<and>
   options (gen_request (lit ''Hi'') cfg_seeded) (lit ''seed'') = Some (PyInt 42) \<and>
   options (gen_request (lit ''Hi'') cfg_seeded) (lit ''temperature'') = Some (PyFloat 0x3FE6666666666666)"
  using options_seed[of "\<lambda>rq. Inr hello_stream" "lit ''Hi''" cfg0 "[]"]
    options_seed[of "\<lambda>rq. Inr hello_stream" "lit ''Hi''" cfg_seeded "[]"]
  by (simp add: cfg0_def cfg_seeded_def)

section \<open>Generation client: failures\<close>

lemma chunk_content_error: "chunk_content c = Inl e \<Longrightarrow> e = AttributeError"
  by (auto simp: chunk_content_def split: pyval.splits)

lemma consume_raises:
  "stream_raises s = Some e \<Longrightarrow> consume s acc = Inl e \<or> consume s acc = Inl AttributeError"
proof (induction s arbitrary: acc)
  case (StreamChunk c rest)
  show ?case
  proof (cases "chunk_content c")
    case (Inl e')
    with chunk_content_error[OF Inl] show ?thesis by simp
  next
    case (Inr v)
    with StreamChunk show ?thesis by simp
  qed
qed simp_all

text \<open>
  C7. When the stream of the endpoint ends with an exception, after any number of
  chunks, \<open>generate_article\<close> returns a failure and no text: the exception of the
  endpoint, or the AttributeError of an earlier chunk whose message is not a dict.
\<close>

theorem midstream_failure:
  assumes "ep (gen_request prompt cfg) = Inr s" and "stream_raises s = Some e"
  shows "fst (generate_article ep prompt cfg rqs) = Inl e \<or>
         fst (generate_article ep prompt cfg rqs) = Inl AttributeError"
  using assms consume_raises[of s e "[]"]
  by (auto simp: generate_article_def ollama_chat_def)

theorem midstream_failure_witness:
  "stream_raises broken_stream = Some (EndpointError (lit ''connection reset'')) \<and>
   stream_chunks broken_stream = [text_chunk (lit ''Hel'')] \<and>
   fst (generate_article (\<lambda>rq. Inr broken_stream) (lit ''Hi'') cfg0 []) =
     Inl (EndpointError (lit ''connection reset''))"
  using midstream_failure[of "\<lambda>rq. Inr broken_stream" "lit ''Hi''" cfg0 broken_stream
      "EndpointError (lit ''connection reset'')" "[]"]
  by (simp add: broken_stream_def generate_article_def ollama_chat_def)

lemma missing_fields_content: "missing_fields c \<Longrightarrow> chunk_content c = Inr (PyStr [])"
  by (auto simp: missing_fields_def chunk_content_def dict_get_def split: option.splits pyval.splits)

lemma not_dict_content: "message_not_dict c \<Longrightarrow> chunk_content c = Inl AttributeError"
  by (auto simp: message_not_dict_def chunk_content_def dict_get_def split: option.splits pyval.splits)

lemma consume_skip:
  "missing_fields c \<Longrightarrow>
     consume (chunks_then cs (StreamChunk c rest)) acc = consume (chunks_then cs rest) acc"
  by (induction cs arbitrary: acc) (simp_all add: missing_fields_content split: sum.splits)

lemma consume_not_dict:
  "message_not_dict c \<Longrightarrow> consume (chunks_then cs (StreamChunk c rest)) acc = Inl AttributeError"
proof (induction cs arbitrary: acc)
  case (Cons d ds)
  show ?case
  proof (cases "chunk_content d")
    case (Inl e')
    with chunk_content_error[OF Inl] show ?thesis by simp
  next
    case (Inr v)
    with Cons show ?thesis by simp
  qed
qed (simp add: not_dict_content)

text \<open>
  C8 as stated fails: a stream whose only chunk is the empty dict, which has neither
  field, is consumed without a failure and gives the empty text.
\<close>

theorem malformed_chunk_counterexample:
  "missing_fields [] \<and>
   fst (generate_article (\<lambda>rq. Inr (StreamChunk [] StreamEnd)) (lit ''Hi'') cfg0 []) = Inr []"
  by (simp add: missing_fields_def generate_article_def ollama_chat_def chunk_content_def
      dict_get_def)

text \<open>
  C8, amended. A chunk that lacks the message field, or whose message lacks the content
  field, is no failure: the result is what it would be had the chunk not been sent. A
  chunk whose message is present and is not a dict makes \<open>generate_article\<close> fail
  with AttributeError.
\<close>

theorem malformed_chunk:
  assumes "ep (gen_request prompt cfg) = Inr (chunks_then cs (StreamChunk c rest))"
    and "ep' (gen_request prompt cfg) = Inr (chunks_then cs rest)"
  shows "(missing_fields c \<longrightarrow>
            fst (generate_article ep prompt cfg rqs) = fst (generate_article ep' prompt cfg rqs)) \<and>
         (message_not_dict c \<longrightarrow> fst (generate_article ep prompt cfg rqs) = Inl AttributeError)"
  using assms by (auto simp: generate_article_def ollama_chat_def consume_skip consume_not_dict)

theorem malformed_chunk_witness:
  "missing_fields [(lit ''message'', PyDict [])] \<and>
   fst (generate_article
          (\<lambda>rq. Inr (chunks_then [text_chunk (lit ''Hel'')]
             (StreamChunk [(lit ''message'', PyDict [])] (StreamChunk (text_chunk (lit ''lo'')) StreamEnd))))
          (lit ''Hi'') cfg0 []) = Inr (lit ''Hello'') \<and>
   message_not_dict [(lit ''message'', PyNone)] \<and>
   fst (generate_article
          (\<lambda>rq. Inr (chunks_then [text_chunk (lit ''Hel'')]
             (StreamChunk [(lit ''message'', PyNone)] (StreamChunk (text_chunk (lit ''lo'')) StreamEnd))))
          (lit ''Hi'') cfg0 []) = Inl AttributeError"
  using
    malformed_chunk[of
      "\<lambda>rq. Inr (chunks_then [text_chunk (lit ''Hel'')]
         (StreamChunk [(lit ''message'', PyDict [])] (StreamChunk (text_chunk (lit ''lo'')) StreamEnd)))"
      "lit ''Hi''" cfg0 "[text_chunk (lit ''Hel'')]" "[(lit ''message'', PyDict [])]"
      "StreamChunk (text_chunk (lit ''lo'')) StreamEnd"
      "\<lambda>rq. Inr (chunks_then [text_chunk (lit ''Hel'')] (StreamChunk (text_chunk (lit ''lo'')) StreamEnd))"
      "[]"]
    malformed_chunk[of
      "\<lambda>rq. Inr (chunks_then [text_chunk (lit ''Hel'')]
         (StreamChunk [(lit ''message'', PyNone)] (StreamChunk (text_chunk (lit ''lo'')) StreamEnd)))"
      "lit ''Hi''" cfg0 "[text_chunk (lit ''Hel'')]" "[(lit ''message'', PyNone)]"
      "StreamChunk (text_chunk (lit ''lo'')) StreamEnd"
      "\<lambda>rq. Inr (chunks_then [text_chunk (lit ''Hel'')] (StreamChunk (text_chunk (lit ''lo'')) StreamEnd))"
      "[]"]
  by (simp add: missing_fields_def message_not_dict_def generate_article_def ollama_chat_def)

section \<open>The Generate button: a blank topic\<close>

lemma strip_Nil_iff: "strip s = [] \<longleftrightarrow> blank s"
proof
  assume "strip s = []"
  then have all: "list_all isspace (dropWhile isspace s)"
    by (simp add: strip_def lstrip_def rstrip_def dropWhile_eq_Nil_conv list_all_iff)
  have "dropWhile isspace s = []"
  proof (rule ccontr)
    assume ne: "dropWhile isspace s \<noteq> []"
    then have "\<not> isspace (hd (dropWhile isspace s))" by (rule hd_dropWhile)
    moreover from ne all have "isspace (hd (dropWhile isspace s))"
      by (cases "dropWhile isspace s") simp_all
    ultimately show False by contradiction
  qed
  then show "blank s" by (simp add: blank_def dropWhile_eq_Nil_conv list_all_iff)
next
  assume "blank s"
  then have d: "dropWhile isspace s = []"
    by (simp add: blank_def dropWhile_eq_Nil_conv list_all_iff)
  show "strip s = []"
    unfolding strip_def lstrip_def rstrip_def d by simp
qed

text \<open>With a topic that is not blank the handler goes on and sends its request.\<close>

lemma topic_given_sends:
  assumes "\<not> blank (topic_in f)"
  shows "sent (snd (on_generate ep now f w)) =
           sent w @ [gen_request (build_prompt (request_of_form f)) (config_of_form f)]"
proof -
  from assms have ne: "strip (topic_in f) \<noteq> []" by (simp add: strip_Nil_iff)
  obtain r s' where
    r: "generate_article ep (build_prompt (request_of_form f)) (config_of_form f) (sent w) = (r, s')"
    by (cases "generate_article ep (build_prompt (request_of_form f)) (config_of_form f) (sent w)")
  with generate_article_sent[of ep "build_prompt (request_of_form f)" "config_of_form f" "sent w"]
  have s': "s' = sent w @ [gen_request (build_prompt (request_of_form f)) (config_of_form f)]"
    by simp
  show ?thesis using ne r s'
    by (cases r) (simp_all add: on_generate_def Let_def split: sum.splits)
qed

text \<open>
  C6. When the topic is blank, the handler of the button shows the error
  "Please enter a topic." and stops: it shows nothing else, whatever the endpoint would
  answer, and the list of requests sent is unchanged.
\<close>

theorem blank_topic_refused:
  assumes "blank (topic_in f)"
  shows "on_generate ep now f w =
           (Stopped, w\<lparr>shown := shown w @ [StError (lit ''Please enter a topic.'')]\<rparr>) \<and>
         sent (snd (on_generate ep now f w)) = sent w"
  using assms by (simp add: on_generate_def strip_Nil_iff)

theorem blank_topic_refused_witness:
  "blank (topic_in (form0\<lparr>topic_in := [32, 9, 12288]\<rparr>)) \<and>
   blank (topic_in form0) \<and>
   on_generate (\<lambda>rq. Inr hello_stream) (lit ''20240101_120000'')
       (form0\<lparr>topic_in := [32, 9, 12288]\<rparr>) world0 =
     (Stopped, \<lparr>sent = [], shown = [StError (lit ''Please enter a topic.'')]\<rparr>)"
  using blank_topic_refused[of "form0\<lparr>topic_in := [32, 9, 12288]\<rparr>" "\<lambda>rq. Inr hello_stream"
      "lit ''20240101_120000''" world0]
  by (simp add: blank_def isspace_def form0_def world0_def)

section \<open>Strings: stripping and containment\<close>

lemma rstrip_keep:
  assumes "a \<noteq> []" and "\<not> isspace (last a)"
  shows "rstrip (a @ b) = a @ rstrip b"
proof -
  from assms have "dropWhile isspace (rev a) = rev a"
    by (simp add: dropWhile_eq_self_iff hd_rev)
  then show ?thesis
    by (simp add: rstrip_def dropWhile_append)
qed

lemma prefix_rstrip: "prefix (rstrip s) s"
proof -
  have "suffix (dropWhile isspace (rev s)) (rev s)" by (rule suffix_dropWhile)
  then show ?thesis
    unfolding rstrip_def suffix_to_prefix by simp
qed

lemma rstrip_last: "rstrip s \<noteq> [] \<Longrightarrow> \<not> isspace (last (rstrip s))"
  using hd_dropWhile[of isspace "rev s"] by (simp add: rstrip_def last_rev)

lemma rstrip_tail:
  "rstrip (10 # e @ [10]) = (if blank e then [] else 10 # rstrip e)"
proof (cases "blank e")
  case True
  then have "\<forall>x\<in>set (10 # e @ [10]). isspace x" by (simp add: blank_def list_all_iff isspace_def)
  then have "dropWhile isspace (rev (10 # e @ [10])) = []"
    unfolding dropWhile_eq_Nil_conv by simp
  with True show ?thesis by (simp add: rstrip_def)
next
  case False
  have nl: "isspace 10" by (simp add: isspace_def)
  from False have ex: "\<not> (\<forall>x\<in>set (rev e). isspace x)" by (simp add: blank_def list_all_iff)
  then have ne: "dropWhile isspace (rev e) \<noteq> []" by (simp add: dropWhile_eq_Nil_conv)
  have "dropWhile isspace (rev (10 # e @ [10])) = dropWhile isspace (rev e @ [10])"
    using nl by simp
  also have "\<dots> = dropWhile isspace (rev e) @ [10]"
    using ex by (simp add: dropWhile_append)
  finally show ?thesis using False by (simp add: rstrip_def)
qed

lemma rstrip_id:
  assumes "e \<noteq> []" and "\<not> isspace (last e)"
  shows "rstrip e = e"
proof -
  from assms have "dropWhile isspace (rev e) = rev e"
    by (simp add: dropWhile_eq_self_iff hd_rev)
  then show ?thesis by (simp add: rstrip_def)
qed

lemma sublist_trans: "sublist a b \<Longrightarrow> sublist b c \<Longrightarrow> sublist a c"
  by (rule sublist_order.order.trans)

lemma sublist_split_char:
  assumes "c \<notin> set s"
  shows "sublist s (a @ c # b) \<longleftrightarrow> sublist s a \<or> sublist s b"
proof -
  have p: "prefix t (c # b) \<longleftrightarrow> t = []" if "set t \<subseteq> set s" for t
    using that assms by (auto simp: prefix_Cons)
  have "(\<exists>s1 s2. s = s1 @ s2 \<and> suffix s1 a \<and> prefix s2 (c # b)) \<longleftrightarrow> suffix s a"
  proof
    assume "\<exists>s1 s2. s = s1 @ s2 \<and> suffix s1 a \<and> prefix s2 (c # b)"
    then obtain s1 s2 where s: "s = s1 @ s2" and "suffix s1 a" and "prefix s2 (c # b)" by blast
    moreover from s have "set s2 \<subseteq> set s" by simp
    ultimately show "suffix s a" using p[of s2] by simp
  next
    assume "suffix s a"
    then have "s = s @ [] \<and> suffix s a \<and> prefix [] (c # b)" by simp
    then show "\<exists>s1 s2. s = s1 @ s2 \<and> suffix s1 a \<and> prefix s2 (c # b)" by blast
  qed
  moreover have "sublist s (c # b) \<longleftrightarrow> s = [] \<or> sublist s b"
    using p[of s] by (simp add: sublist_Cons_right)
  ultimately show ?thesis
    unfolding sublist_append[of s a "c # b"] by auto
qed

lemma sublist_split_after:
  assumes "c \<notin> set s" and "a \<noteq> []" and "last a = c"
  shows "sublist s (a @ b) \<longleftrightarrow> sublist s a \<or> sublist s b"
proof -
  from assms(2,3) have a: "a = butlast a @ [c]" by (metis append_butlast_last_id)
  have "sublist s (a @ b) \<longleftrightarrow> sublist s (butlast a @ c # b)"
    by (subst a) simp
  also have "\<dots> \<longleftrightarrow> sublist s (butlast a) \<or> sublist s b"
    by (rule sublist_split_char[OF assms(1)])
  also have "sublist s (butlast a) \<longleftrightarrow> sublist s a"
    using sublist_split_char[OF assms(1), of "butlast a" "[]"] a assms(1)
    by (cases s) auto
  finally show ?thesis .
qed

lemma no_sublist_hd: "s \<noteq> [] \<Longrightarrow> hd s \<notin> set a \<Longrightarrow> \<not> sublist s a"
  using set_mono_sublist[of s a] by (cases s) auto

lemma sublist_drop_pre:
  assumes "s \<noteq> []" and "hd s \<notin> set pre"
  shows "sublist s (pre @ f) \<longleftrightarrow> sublist s f"
  using assms
proof (induction pre)
  case (Cons x xs)
  then have "\<not> prefix s (x # xs @ f)" by (cases s) auto
  with Cons show ?case by (simp add: sublist_Cons_right)
qed simp

lemma sublist_drop_post:
  assumes "s \<noteq> []" and "last s \<notin> set post"
  shows "sublist s (f @ post) \<longleftrightarrow> sublist s f"
proof -
  from assms have "rev s \<noteq> []" "hd (rev s) \<notin> set (rev post)" by (simp_all add: hd_rev)
  then have "sublist (rev s) (rev post @ rev f) \<longleftrightarrow> sublist (rev s) (rev f)"
    by (rule sublist_drop_pre)
  then show ?thesis
    using sublist_rev[of s "f @ post"] sublist_rev[of s f] by simp
qed

lemma sublist_field_line:
  "s \<noteq> [] \<Longrightarrow> hd s \<notin> set pre \<Longrightarrow> last s \<notin> set post \<Longrightarrow>
     sublist s (field_line pre f post) \<longleftrightarrow> sublist s f"
  by (simp add: field_line_def sublist_drop_pre sublist_drop_post)

lemma sublist_unlines:
  assumes "s \<noteq> []" and "10 \<notin> set s"
  shows "sublist s (unlines ls) \<longleftrightarrow> (\<exists>l\<in>set ls. sublist s l)"
proof (induction ls)
  case Nil
  from assms(1) show ?case by (simp add: unlines_def)
next
  case (Cons l ls)
  have "unlines (l # ls) = l @ 10 # unlines ls" by (simp add: unlines_def)
  with Cons sublist_split_char[OF assms(2), of l "unlines ls"] show ?case by simp
qed

lemma sublist_str_join:
  assumes "s \<noteq> []" and "44 \<notin> set s" and "hd s \<noteq> 32"
  shows "sublist s (str_join (lit '', '') ks) \<longleftrightarrow> (\<exists>k\<in>set ks. sublist s k)"
proof (induction "lit '', ''" ks rule: str_join.induct)
  case 1
  from assms(1) show ?case by simp
next
  case (2 x)
  show ?case by simp
next
  case (3 x y ys)
  have "sublist s (32 # str_join (lit '', '') (y # ys)) \<longleftrightarrow> sublist s (str_join (lit '', '') (y # ys))"
    using sublist_drop_pre[of s "[32]"] assms(1,3) by simp
  with 3 sublist_split_char[OF assms(2), of x "32 # str_join (lit '', '') (y # ys)"]
  show ?case by simp
qed

lemma digits_set: "set (digits n) \<subseteq> {48..57}"
proof (induction n rule: digits.induct)
  case (1 n)
  show ?case
  proof (cases "n < 10")
    case True
    then show ?thesis by (subst digits.simps) simp
  next
    case False
    have "n mod 10 < 10" by simp
    then have "48 + n mod 10 \<in> {48..57}" by simp
    with False 1 show ?thesis by (subst digits.simps) simp
  qed
qed

lemma str_int_set: "set (str_int i) \<subseteq> insert 45 {48..57}"
  using digits_set by (auto simp: str_int_def)

lemma no_sublist_str_int:
  assumes "s \<noteq> []" and "hd s \<notin> insert 45 {48..57}"
  shows "\<not> sublist s (str_int i)"
proof
  assume "sublist s (str_int i)"
  then have "set s \<subseteq> set (str_int i)" by (rule set_mono_sublist)
  with assms(1) have "hd s \<in> set (str_int i)" by (cases s) auto
  with str_int_set assms(2) show False by blast
qed

lemmas sublist_eval = sublist_Cons_right prefix_code

section \<open>Prompt builder: the shape of the prompt\<close>

lemma prompt_head_last: "prompt_head req \<noteq> [] \<and> last (prompt_head req) = 45"
  by (simp add: prompt_head_def extra_heading_def)

lemma prompt_head_hd: "hd (prompt_head req) = 89"
  by (simp add: prompt_head_def role_line_def)

text \<open>
  What \<open>strip()\<close> does to the template: the leading newline goes, the text up to
  the last heading stays, and the tail loses its trailing whitespace.
\<close>

lemma build_prompt_eq:
  "build_prompt req = prompt_head req @ rstrip (10 # extra_instructions req @ [10])"
proof -
  have t: "prompt_template req = 10 # prompt_head req @ 10 # extra_instructions req @ [10]"
    by (simp add: prompt_template_def prompt_head_def extra_section_def)
  have nl: "isspace 10" by (simp add: isspace_def)
  have ns: "\<not> isspace (hd (prompt_head req))" by (simp add: prompt_head_hd isspace_def)
  have ne: "prompt_head req \<noteq> []" by (simp add: prompt_head_last)
  from ne ns nl
  have l: "lstrip (prompt_template req) = prompt_head req @ 10 # extra_instructions req @ [10]"
    unfolding t lstrip_def by (cases "prompt_head req") simp_all
  have "\<not> isspace (last (prompt_head req))" by (simp add: prompt_head_last isspace_def)
  with ne show ?thesis
    unfolding build_prompt_def strip_def l by (rule rstrip_keep)
qed

lemma section_ends:
  "role_line \<noteq> [] \<and> last role_line = 10"
  "goal_section req \<noteq> [] \<and> last (goal_section req) = 10"
  "structure_section req \<noteq> [] \<and> last (structure_section req) = 10"
  "content_section \<noteq> [] \<and> last content_section = 10"
  "output_order req \<noteq> [] \<and> last (output_order req) = 10"
  by (simp_all add: role_line_def goal_section_def structure_section_def style_rules_def
      content_section_def output_order_def)

lemma sublist_prompt_head:
  assumes "10 \<notin> set s"
  shows "sublist s (prompt_head req) \<longleftrightarrow>
           sublist s role_line \<or> sublist s (goal_section req) \<or> sublist s (structure_section req) \<or>
           sublist s content_section \<or> sublist s (output_order req) \<or> sublist s extra_heading"
  unfolding prompt_head_def
  by (simp add: sublist_split_after[OF assms] section_ends)

lemma sublist_build_prompt:
  assumes "s \<noteq> []" and "10 \<notin> set s" and "sublist s (build_prompt req)"
  shows "sublist s (prompt_head req) \<or> sublist s (extra_instructions req)"
proof -
  have "prefix (build_prompt req) (prompt_head req @ 10 # extra_instructions req @ [10])"
    unfolding build_prompt_eq using prefix_rstrip[of "10 # extra_instructions req @ [10]"] by simp
  with assms(3) have "sublist s (prompt_head req @ 10 # extra_instructions req @ [10])"
    using prefix_imp_sublist sublist_trans by blast
  then have "sublist s (prompt_head req) \<or> sublist s (extra_instructions req @ [10])"
    by (simp add: sublist_split_char[OF assms(2)])
  moreover have "sublist s (extra_instructions req @ [10]) \<longleftrightarrow> sublist s (extra_instructions req)"
    using sublist_split_char[OF assms(2), of "extra_instructions req" "[]"] assms(1) by simp
  ultimately show ?thesis by simp
qed

lemma sublist_head_prompt: "sublist (prompt_head req) (build_prompt req)"
  unfolding build_prompt_eq by simp


lemma structure_in_prompt: "sublist (structure_section req) (build_prompt req)"
proof -
  have "prompt_head req = (role_line @ goal_section req) @ structure_section req @
      (content_section @ output_order req @ extra_heading)"
    by (simp add: prompt_head_def)
  then have "sublist (structure_section req) (prompt_head req)"
    unfolding sublist_def by blast
  with sublist_head_prompt show ?thesis using sublist_trans by blast
qed

lemma output_order_in_prompt: "sublist (output_order req) (build_prompt req)"
proof -
  have "prompt_head req = (role_line @ goal_section req @ structure_section req @ content_section) @
      output_order req @ extra_heading"
    by (simp add: prompt_head_def)
  then have "sublist (output_order req) (prompt_head req)"
    unfolding sublist_def by blast
  with sublist_head_prompt show ?thesis using sublist_trans by blast
qed


lemma outline_in_structure: "sublist (outline_block req) (structure_section req)"
proof -
  have "structure_section req =
      (lit ''Structure & Style\<newline>'' @ lit ''-----------------\<newline>'') @ outline_block req @
      (lit ''\<newline>'' @ style_rules)"
    unfolding structure_section_def by (simp only: append_assoc)
  then show ?thesis unfolding sublist_def by blast
qed

lemma goal_section_lines: "goal_section req = unlines (goal_lines req)"
  by (simp add: goal_section_def goal_lines_def unlines_def field_line_def keyword_line_def)

lemma sublist_kw_str:
  assumes "s \<noteq> []" and "44 \<notin> set s" and "hd s \<noteq> 32" and "\<not> sublist s (lit ''N/A'')"
  shows "sublist s (kw_str req) \<longleftrightarrow> (\<exists>k\<in>set (keywords req). sublist s k)"
  using assms sublist_str_join[OF assms(1-3), of "keywords req"] by (simp add: kw_str_def)

lemma goal_section_fields:
  assumes "s \<noteq> []" and "10 \<notin> set s" and "34 \<notin> set s" and "hd s = 73 \<or> hd s = 83"
    and "last s = 46"
  shows "sublist s (goal_section req) \<longleftrightarrow>
           sublist s (language req) \<or> sublist s (topic req) \<or> sublist s (audience req) \<or>
           sublist s (tone req) \<or> sublist s (reading_level req) \<or> sublist s (kw_str req)"
proof -
  have fixed: "sublist s a = False" if "hd s \<notin> set a" for a
    using no_sublist_hd[OF assms(1) that] by simp
  have num: "sublist s (str_int i) = False" for i
    using no_sublist_str_int[OF assms(1), of i] assms(4) by auto
  from assms(1,3) have q: "hd s \<noteq> 34" by (cases s) auto
  from assms(4) show ?thesis
  proof
    assume h: "hd s = 73"
    show ?thesis
      unfolding goal_section_lines sublist_unlines[OF assms(1,2)] goal_lines_def
      using assms(1,5) h by (simp add: sublist_field_line fixed num)
  next
    assume h: "hd s = 83"
    show ?thesis
      unfolding goal_section_lines sublist_unlines[OF assms(1,2)] goal_lines_def
      using assms(1,5) h by (simp add: sublist_field_line fixed num)
  qed
qed

section \<open>Prompt builder: the outline instruction\<close>

lemma outline_block_text:
  "include_outline req \<Longrightarrow> prefix outline_marker (outline_block req)"
  "\<not> include_outline req \<Longrightarrow> prefix skip_sentence (outline_block req)"
  by (simp_all add: outline_block_def outline_marker_def skip_sentence_def prefix_code)

lemma chosen_in_prompt:
  "sublist (if include_outline req then outline_marker else skip_sentence) (build_prompt req)"
proof -
  have "sublist (if include_outline req then outline_marker else skip_sentence) (outline_block req)"
    using outline_block_text[of req] by (auto intro: prefix_imp_sublist)
  with outline_in_structure[of req] structure_in_prompt[of req] show ?thesis
    using sublist_trans by blast
qed

lemma marker_props:
  "outline_marker \<noteq> []" "10 \<notin> set outline_marker" "34 \<notin> set outline_marker"
  "44 \<notin> set outline_marker" "hd outline_marker = 73" "last outline_marker = 46"
  by (simp_all add: outline_marker_def)

lemma skip_props:
  "skip_sentence \<noteq> []" "10 \<notin> set skip_sentence" "34 \<notin> set skip_sentence"
  "44 \<notin> set skip_sentence" "hd skip_sentence = 83" "last skip_sentence = 46"
  by (simp_all add: skip_sentence_def)

lemma marker_fixed:
  "\<not> sublist outline_marker role_line"
  "\<not> sublist outline_marker content_section"
  "\<not> sublist outline_marker (output_order req)"
  "\<not> sublist outline_marker extra_heading"
  "\<not> sublist outline_marker (lit ''N/A'')"
  "\<not> include_outline req \<Longrightarrow> \<not> sublist outline_marker (structure_section req)"
  by (simp_all add: outline_marker_def role_line_def content_section_def output_order_def
      seo_item_def refs_item_def extra_heading_def structure_section_def outline_block_def
      style_rules_def sublist_eval)

lemma skip_fixed:
  "\<not> sublist skip_sentence role_line"
  "\<not> sublist skip_sentence content_section"
  "\<not> sublist skip_sentence (output_order req)"
  "\<not> sublist skip_sentence extra_heading"
  "\<not> sublist skip_sentence (lit ''N/A'')"
  "include_outline req \<Longrightarrow> \<not> sublist skip_sentence (structure_section req)"
  by (simp_all add: skip_sentence_def role_line_def content_section_def output_order_def
      seo_item_def refs_item_def extra_heading_def structure_section_def outline_block_def
      style_rules_def sublist_eval)

lemma marker_absent:
  assumes "\<not> include_outline req" and "\<forall>t\<in>set (user_texts req). \<not> sublist outline_marker t"
  shows "\<not> sublist outline_marker (build_prompt req)"
proof
  assume "sublist outline_marker (build_prompt req)"
  from sublist_build_prompt[OF marker_props(1,2) this]
  have "sublist outline_marker (goal_section req) \<or> sublist outline_marker (extra_instructions req)"
    using assms(1) by (simp add: sublist_prompt_head[OF marker_props(2)] marker_fixed)
  moreover have "sublist outline_marker (kw_str req) \<longleftrightarrow>
      (\<exists>k\<in>set (keywords req). sublist outline_marker k)"
    by (rule sublist_kw_str) (use marker_fixed(5) in \<open>simp_all add: marker_props\<close>)
  ultimately show False
    using assms(2)
    by (auto simp: goal_section_fields[OF marker_props(1,2,3) _ marker_props(6)] marker_props
        user_texts_def)
qed

lemma skip_absent:
  assumes "include_outline req" and "\<forall>t\<in>set (user_texts req). \<not> sublist skip_sentence t"
  shows "\<not> sublist skip_sentence (build_prompt req)"
proof
  assume "sublist skip_sentence (build_prompt req)"
  from sublist_build_prompt[OF skip_props(1,2) this]
  have "sublist skip_sentence (goal_section req) \<or> sublist skip_sentence (extra_instructions req)"
    using assms(1) by (simp add: sublist_prompt_head[OF skip_props(2)] skip_fixed)
  moreover have "sublist skip_sentence (kw_str req) \<longleftrightarrow>
      (\<exists>k\<in>set (keywords req). sublist skip_sentence k)"
    by (rule sublist_kw_str) (use skip_fixed(5) in \<open>simp_all add: skip_props\<close>)
  ultimately show False
    using assms(2)
    by (auto simp: goal_section_fields[OF skip_props(1,2,3) _ skip_props(6)] skip_props
        user_texts_def)
qed

text \<open>
  C3 as stated fails: with the outline requested and the skip sentence typed into the
  extra instructions, the prompt contains the skip sentence.
\<close>

theorem outline_choice_counterexample:
  "include_outline (req0\<lparr>extra_instructions := skip_sentence\<rparr>) \<and>
   sublist skip_sentence (build_prompt (req0\<lparr>extra_instructions := skip_sentence\<rparr>))"
proof -
  have "rstrip (10 # skip_sentence @ [10]) = 10 # skip_sentence"
    by (simp add: rstrip_def skip_sentence_def isspace_def)
  then have "build_prompt (req0\<lparr>extra_instructions := skip_sentence\<rparr>) =
      (prompt_head (req0\<lparr>extra_instructions := skip_sentence\<rparr>) @ [10]) @ skip_sentence @ []"
    by (simp add: build_prompt_eq)
  then have "sublist skip_sentence (build_prompt (req0\<lparr>extra_instructions := skip_sentence\<rparr>))"
    unfolding sublist_def by blast
  then show ?thesis by (simp add: req0_def)
qed

text \<open>
  C3, amended. The prompt always contains the text that \<open>include_outline\<close> selects,
  the outline marker when it is true and the skip sentence when it is false. It does not
  contain the other one, provided none of the texts the request supplies contains it.
\<close>

theorem outline_choice:
  "sublist (if include_outline req then outline_marker else skip_sentence) (build_prompt req) \<and>
   ((\<forall>t\<in>set (user_texts req).
        \<not> sublist (if include_outline req then skip_sentence else outline_marker) t) \<longrightarrow>
    \<not> sublist (if include_outline req then skip_sentence else outline_marker) (build_prompt req))"
  using chosen_in_prompt[of req] marker_absent[of req] skip_absent[of req] by simp

theorem outline_choice_witness:
  "list_all (\<lambda>t. \<not> sublist skip_sentence t) (user_texts req0) \<and>
   include_outline req0 \<and>
   sublist outline_marker (build_prompt req0) \<and> \<not> sublist skip_sentence (build_prompt req0) \<and>
   list_all (\<lambda>t. \<not> sublist outline_marker t) (user_texts (req0\<lparr>include_outline := False\<rparr>)) \<and>
   sublist skip_sentence (build_prompt (req0\<lparr>include_outline := False\<rparr>)) \<and>
   \<not> sublist outline_marker (build_prompt (req0\<lparr>include_outline := False\<rparr>))"
proof -
  have a: "\<forall>t\<in>set (user_texts req0). \<not> sublist skip_sentence t"
    by (simp add: user_texts_def req0_def skip_sentence_def sublist_eval)
  have b: "\<forall>t\<in>set (user_texts (req0\<lparr>include_outline := False\<rparr>)). \<not> sublist outline_marker t"
    by (simp add: user_texts_def req0_def outline_marker_def sublist_eval)
  have c: "include_outline req0" "\<not> include_outline (req0\<lparr>include_outline := False\<rparr>)"
    by (simp_all add: req0_def)
  from a b c outline_choice[of req0] outline_choice[of "req0\<lparr>include_outline := False\<rparr>"]
  show ?thesis by (simp add: list_all_iff)
qed

section \<open>Prompt builder: the keyword line\<close>



section \<open>Prompt builder: the Output Order section\<close>

text \<open>
  C5. The Output Order section is part of the prompt, and whatever the other flags
  are, it contains "3)" exactly when the SEO item is included and "4)" exactly when the
  references item is: the SEO item is always "3) SEO Block" and the references item
  always "4) References", so with SEO off and references on the section lists
  "4) References" and no "3)".
\<close>

theorem output_order_numbering:
  "sublist (output_order req) (build_prompt req) \<and>
   (sublist (lit ''3)'') (output_order req) \<longleftrightarrow> include_seo req) \<and>
   (sublist (lit ''4)'') (output_order req) \<longleftrightarrow> include_references req) \<and>
   (sublist (lit ''3) SEO Block\<newline>'') (output_order req) \<longleftrightarrow> include_seo req) \<and>
   (sublist (lit ''4) References\<newline>'') (output_order req) \<longleftrightarrow> include_references req)"
proof -
  have "sublist (lit ''3)'') (output_order req) \<longleftrightarrow> include_seo req"
    by (cases "include_seo req"; cases "include_references req")
      (simp_all add: output_order_def seo_item_def refs_item_def sublist_eval)
  moreover have "sublist (lit ''4)'') (output_order req) \<longleftrightarrow> include_references req"
    by (cases "include_seo req"; cases "include_references req")
      (simp_all add: output_order_def seo_item_def refs_item_def sublist_eval)
  moreover have "sublist (lit ''3) SEO Block\<newline>'') (output_order req) \<longleftrightarrow> include_seo req"
    by (cases "include_seo req"; cases "include_references req")
      (simp_all add: output_order_def seo_item_def refs_item_def sublist_eval)
  moreover have "sublist (lit ''4) References\<newline>'') (output_order req) \<longleftrightarrow> include_references req"
    by (cases "include_seo req"; cases "include_references req")
      (simp_all add: output_order_def seo_item_def refs_item_def sublist_eval)
  ultimately show ?thesis using output_order_in_prompt[of req] by simp
qed

text \<open>
  C10. For every request the Output Order section starts with its heading and the
  lines "1) Outline (if requested)" and "2) Full article in Markdown", whatever the
  three flags are, and the section with these lines is part of the prompt.
\<close>

theorem output_order_fixed_lines:
  "prefix (lit ''Output Order\<newline>------------\<newline>1) Outline (if requested)\<newline>2) Full article in Markdown\<newline>'')
     (output_order req) \<and>
   sublist (output_order req) (build_prompt req) \<and>
   sublist (lit ''1) Outline (if requested)\<newline>2) Full article in Markdown\<newline>'') (build_prompt req)"
proof -
  have p: "prefix (lit ''Output Order\<newline>------------\<newline>1) Outline (if requested)\<newline>2) Full article in Markdown\<newline>'')
     (output_order req)"
    by (simp add: output_order_def prefix_code)
  have "output_order req = lit ''Output Order\<newline>------------\<newline>'' @
      lit ''1) Outline (if requested)\<newline>2) Full article in Markdown\<newline>'' @
      (seo_item req @ refs_item req @ lit ''\<newline>'' @ lit ''\<newline>'')"
    by (simp add: output_order_def)
  then have "sublist (lit ''1) Outline (if requested)\<newline>2) Full article in Markdown\<newline>'') (output_order req)"
    unfolding sublist_def by blast
  with p output_order_in_prompt[of req] show ?thesis
    using sublist_trans by blast
qed

section \<open>Prompt builder: the extra instructions and the final strip\<close>

text \<open>
  C9 as stated fails: extra instructions that end with a space are not in the prompt
  verbatim, since the final \<open>strip()\<close> removes the space.
\<close>

theorem extra_section_counterexample:
  "\<not> sublist (extra_instructions (req0\<lparr>extra_instructions := lit ''Be brief. ''\<rparr>))
       (build_prompt (req0\<lparr>extra_instructions := lit ''Be brief. ''\<rparr>))"
proof -
  have d: "str_int 1000 = lit ''1000''"
    by (simp add: str_int_def digits.simps)
  show ?thesis
    unfolding build_prompt_eq
    by (simp add: req0_def prompt_head_def role_line_def goal_section_def structure_section_def
        content_section_def output_order_def extra_heading_def keyword_line_def kw_str_def
        outline_block_def style_rules_def seo_item_def refs_item_def rstrip_def isspace_def d
        sublist_eval)
qed

text \<open>
  C9, amended. The template ends with the Extra Instructions heading, a newline, the
  extra instructions verbatim and a newline, and the prompt is the template stripped.
  So the prompt ends with the heading followed, unless the extra instructions are
  blank, by a newline and the extra instructions without their trailing whitespace:
  verbatim when they do not end with whitespace. The prompt is not empty and has no
  whitespace at either end.
\<close>

theorem extra_section_trailing:
  "suffix (extra_heading @ 10 # extra_instructions req @ [10]) (prompt_template req) \<and>
   strip (prompt_template req) = build_prompt req \<and>
   suffix (extra_heading @
       (if blank (extra_instructions req) then [] else 10 # rstrip (extra_instructions req)))
     (build_prompt req) \<and>
   (extra_instructions req \<noteq> [] \<and> \<not> isspace (last (extra_instructions req)) \<longrightarrow>
      suffix (extra_heading @ 10 # extra_instructions req) (build_prompt req)) \<and>
   build_prompt req \<noteq> [] \<and> \<not> isspace (hd (build_prompt req)) \<and>
   \<not> isspace (last (build_prompt req))"
proof -
  let ?e = "extra_instructions req"
  let ?h = "role_line @ goal_section req @ structure_section req @ content_section @ output_order req"
  have t: "prompt_template req = (10 # ?h) @ extra_heading @ 10 # ?e @ [10]"
    by (simp add: prompt_template_def extra_section_def)
  have s1: "suffix (extra_heading @ 10 # ?e @ [10]) (prompt_template req)"
    unfolding t by (rule suffix_appendI) simp
  have b: "build_prompt req = ?h @ extra_heading @ (if blank ?e then [] else 10 # rstrip ?e)"
    unfolding build_prompt_eq rstrip_tail by (simp add: prompt_head_def)
  have s2: "suffix (extra_heading @ (if blank ?e then [] else 10 # rstrip ?e)) (build_prompt req)"
    unfolding b by (rule suffix_appendI) simp
  have s3: "suffix (extra_heading @ 10 # ?e) (build_prompt req)"
    if "?e \<noteq> []" "\<not> isspace (last ?e)"
  proof -
    from that have "\<not> blank ?e" by (cases ?e rule: rev_cases) (auto simp: blank_def)
    with s2 rstrip_id[OF that] show ?thesis by simp
  qed
  have ne: "build_prompt req \<noteq> []"
    unfolding build_prompt_eq using prompt_head_last[of req] by simp
  have hd: "hd (build_prompt req) = 89"
    unfolding build_prompt_eq using prompt_head_last[of req] prompt_head_hd[of req] by simp
  have last: "\<not> isspace (last (build_prompt req))"
  proof (cases "rstrip (10 # ?e @ [10]) = []")
    case True
    then show ?thesis
      unfolding build_prompt_eq using prompt_head_last[of req] by (simp add: isspace_def)
  next
    case False
    with rstrip_last[OF False] show ?thesis
      unfolding build_prompt_eq by simp
  qed
  from s1 s2 s3 ne hd last show ?thesis
    by (simp add: build_prompt_def isspace_def)
qed

theorem extra_section_witness:
  "extra_instructions (req0\<lparr>extra_instructions := lit ''Be brief.''\<rparr>) \<noteq> [] \<and>
   \<not> isspace (last (extra_instructions (req0\<lparr>extra_instructions := lit ''Be brief.''\<rparr>))) \<and>
   suffix (extra_heading @ 10 # lit ''Be brief.'')
     (build_prompt (req0\<lparr>extra_instructions := lit ''Be brief.''\<rparr>)) \<and>
   suffix extra_heading (build_prompt req0)"
proof -
  let ?r = "req0\<lparr>extra_instructions := lit ''Be brief.''\<rparr>"
  have e: "extra_instructions ?r = lit ''Be brief.''" by simp
  have a: "extra_instructions ?r \<noteq> []" "\<not> isspace (last (extra_instructions ?r))"
    unfolding e by (simp_all add: isspace_def)
  with extra_section_trailing[of ?r]
  have "suffix (extra_heading @ 10 # extra_instructions ?r) (build_prompt ?r)" by blast
  then have s: "suffix (extra_heading @ 10 # lit ''Be brief.'') (build_prompt ?r)"
    unfolding e .
  have "blank (extra_instructions req0)" by (simp add: req0_def blank_def)
  with extra_section_trailing[of req0] have "suffix extra_heading (build_prompt req0)" by simp
  with a s show ?thesis by blast
qed

end
